theory Spec2Isabelle
  imports Main
begin

unbundle bit_operations_syntax

section \<open>JavaScript numbers and bitwise operators\<close>

text \<open>
  The extension computes with JavaScript Numbers. This development covers the
  integer-valued ones and models them as \<^typ>\<open>int\<close>; on these, \<open>+\<close>, \<open>-\<close>, \<open>*\<close>,
  \<open>Math.abs\<close> and the comparisons are the integer operations, and
  \<open>Math.floor(n / 2)\<close> is \<open>n div 2\<close> (division rounding towards minus infinity).

  The bitwise operators first convert their operands with ToInt32: the value modulo
  \<open>2^32\<close>, read as a signed 32-bit integer. \<open>&\<close> is the bitwise conjunction of the
  two converted operands, and \<open>>>\<close> is the sign-propagating right shift of the converted
  left operand by the shift count modulo 32.
\<close>

definition ToInt32 :: "int \<Rightarrow> int" where
  "ToInt32 x = (let m = x mod 2 ^ 32 in if m \<ge> 2 ^ 31 then m - 2 ^ 32 else m)"

definition js_and :: "int \<Rightarrow> int \<Rightarrow> int" where
  "js_and a b = ToInt32 a AND ToInt32 b"

definition js_shr :: "int \<Rightarrow> nat \<Rightarrow> int" where
  "js_shr a k = drop_bit (k mod 32) (ToInt32 a)"

section \<open>Constants of the extension\<close>

text \<open>\<open>Scratch3Ev3Blocks.PRIMITIVE\<close> (index.js, lines 57-73).\<close>

definition LAYER :: int where "LAYER = 0x00"
definition NUM8 :: int where "NUM8 = 0x81"
definition NUM16 :: int where "NUM16 = 0x82"
definition NUM32 :: int where "NUM32 = 0x83"
definition COAST :: int where "COAST = 0x0"
definition BRAKE :: int where "BRAKE = 0x1"
definition LONGRAMP :: int where "LONGRAMP = 50"
definition STEPSPEED :: int where "STEPSPEED = 0xAE"
definition TIMESPEED :: int where "TIMESPEED = 0xAF"
definition OUTPUTSTOP :: int where "OUTPUTSTOP = 0xA3"
definition OUTPUTRESET :: int where "OUTPUTRESET = 0xA2"
definition STEPSPEEDSYNC :: int where "STEPSPEEDSYNC = 0xB0"
definition TIMESPEEDSYNC :: int where "TIMESPEEDSYNC = 0xB1"

lemmas PRIMITIVE_defs =
  LAYER_def NUM8_def NUM16_def NUM32_def COAST_def BRAKE_def LONGRAMP_def
  STEPSPEED_def TIMESPEED_def OUTPUTSTOP_def OUTPUTRESET_def
  STEPSPEEDSYNC_def TIMESPEEDSYNC_def

section \<open>The motor command encoder\<close>

text \<open>
  \<open>getRunValues\<close>, the function nested in \<open>_motorCommand\<close> (lines 246-264): the
  16-bit form below \<open>0x7fff\<close>, the 32-bit form otherwise.
\<close>

definition getRunValues :: "int \<Rightarrow> int list" where
  "getRunValues run =
     (if run < 0x7fff then
        [NUM16, js_and run 0xff, js_and (js_shr run 8) 0xff]
      else
        [NUM32, js_and run 0xff, js_and (js_shr run 8) 0xff,
         js_and (js_shr run 16) 0xff, js_and (js_shr run 24) 0xff])"

text \<open>
  The ramp set-up of \<open>_motorCommand\<close> (lines 280-287), on the absolute input value
  \<open>n\<close>: the triple is (\<open>rampup\<close>, \<open>run\<close>, \<open>rampdown\<close>) as the three variables stand
  after the \<open>if\<close>.
\<close>

definition rampProfile :: "int \<Rightarrow> int \<Rightarrow> int \<times> int \<times> int" where
  "rampProfile n ramp =
     (let rampup = ramp;
          rampdown = ramp;
          run = n - ramp * 2
      in if run < 0 then
           (let rampup = n div 2;
                run = 0;
                rampdown = n - rampup
            in (rampup, run, rampdown))
         else (rampup, run, rampdown))"

text \<open>
  \<open>_motorCommand (command, port, n, speed, ramp)\<close> (lines 240-304). The two
  reassigned parameters are threaded as a pair; \<open>dir\<close> is computed from the
  sign-adjusted \<open>n\<close> before \<open>n\<close> is replaced by its absolute value.
\<close>

definition motorCommand :: "int \<Rightarrow> int \<Rightarrow> int \<Rightarrow> int \<Rightarrow> int \<Rightarrow> int list" where
  "motorCommand command port n speed ramp =
     (let (speed, n) = (if speed < 0 then (-1 * speed, -1 * n) else (speed, n));
          dir = (if n < 0 then 0x100 - speed else speed);
          n = \<bar>n\<bar>;
          (rampup, run, rampdown) = rampProfile n ramp;
          runcmd = getRunValues run
      in [command, LAYER, port, NUM8, js_and dir 0xff, NUM8, rampup]
           @ (runcmd @ [NUM8, rampdown, BRAKE]))"

text \<open>
  Reading a byte sequence as a little-endian number, low byte first: the decoder the
  hub applies to the payload of a run-length encoding and to a frame's length field.
  It is not part of the extension; the round-trip properties are stated against it.
\<close>

definition decodeLE :: "int list \<Rightarrow> int" where
  "decodeLE bs = foldr (\<lambda>b acc. b + 256 * acc) bs 0"

section \<open>The frame builder\<close>

text \<open>
  \<open>_applyPrefix (n, cmd)\<close> (lines 306-318). \<open>[].concat\<close> appends its number
  arguments as elements and the array \<open>cmd\<close> element by element.
\<close>

definition applyPrefix :: "int \<Rightarrow> int list \<Rightarrow> int list" where
  "applyPrefix n cmd =
     (let len = int (length cmd) + 5
      in [js_and len 0xFF, js_and (js_shr len 8) 0xFF, 0x1, 0x0, 0x0, n, 0x0] @ cmd)"

section \<open>The transport codec\<close>

text \<open>
  \<open>window.btoa\<close> is the browser's base64 encoder of a binary string (one character
  per byte): three bytes become four characters of the standard alphabet, and a last
  group of one or two bytes is padded with \<open>=\<close>. A \<^typ>\<open>string\<close> of HOL is a
  list of 8-bit characters, which is what a binary string is.
\<close>

definition base64_alphabet :: string where
  "base64_alphabet = ''ABCDEFGHIJKLMNOPQRSTUVWXYZabcdefghijklmnopqrstuvwxyz0123456789+/''"

definition b64 :: "nat \<Rightarrow> char" where
  "b64 i = base64_alphabet ! i"

fun btoa :: "string \<Rightarrow> string" where
  "btoa (a # b # c # rest) =
     (let x = of_char a; y = of_char b; z = of_char c
      in [b64 (x div 4), b64 ((x mod 4) * 16 + y div 16),
          b64 ((y mod 16) * 4 + z div 64), b64 (z mod 64)] @ btoa rest)"
| "btoa [a, b] =
     (let x = of_char a; y = of_char b
      in [b64 (x div 4), b64 ((x mod 4) * 16 + y div 16), b64 ((y mod 16) * 4),
          CHR ''=''])"
| "btoa [a] =
     (let x = of_char a
      in [b64 (x div 4), b64 ((x mod 4) * 16), CHR ''='', CHR ''=''])"
| "btoa [] = []"

text \<open>
  \<open>new Uint8Array(buffer)\<close> on an array of numbers stores each element modulo 256.
\<close>

definition ToUint8 :: "int \<Rightarrow> nat" where
  "ToUint8 x = nat (x mod 256)"

text \<open>
  The \<open>for\<close> loop of \<open>_arrayBufferToBase64\<close> (lines 324-326), from index \<open>i\<close>
  with the string built so far.
\<close>

function fromCharCodes :: "nat list \<Rightarrow> nat \<Rightarrow> nat \<Rightarrow> string \<Rightarrow> string" where
  "fromCharCodes bytes i len binary =
     (if i < len then fromCharCodes bytes (i + 1) len (binary @ [char_of (bytes ! i)])
      else binary)"
  by pat_completeness auto
termination
  by (relation "measure (\<lambda>(bytes, i, len, binary). len - i)") auto

declare fromCharCodes.simps [simp del]

text \<open>\<open>_arrayBufferToBase64 (buffer)\<close> (lines 320-328).\<close>

definition arrayBufferToBase64 :: "int list \<Rightarrow> string" where
  "arrayBufferToBase64 buffer =
     (let binary = [];
          bytes = map ToUint8 buffer;
          len = length bytes
      in btoa (fromCharCodes bytes 0 len binary))"

section \<open>Block arguments and the port menu\<close>

text \<open>
  A block argument is a number or a string. \<open>Number(s)\<close> on a string of decimal
  digits with an optional sign is that integer and on the empty string it is 0; other
  strings have no value here (\<open>None\<close>): they are not a number, or they denote a number
  in a notation this development does not cover.
\<close>

datatype jsval = Num int | Str string

definition is_digit :: "char \<Rightarrow> bool" where
  "is_digit c = (48 \<le> (of_char c :: nat) \<and> (of_char c :: nat) \<le> 57)"

definition digits_value :: "string \<Rightarrow> int" where
  "digits_value ds = foldl (\<lambda>acc c. 10 * acc + (int (of_char c) - 48)) 0 ds"

definition Number_js :: "string \<Rightarrow> int option" where
  "Number_js str =
     (case str of
        [] \<Rightarrow> Some 0
      | c # cs \<Rightarrow>
          (let (sign, ds) = (if c = CHR ''-'' then (- 1, cs)
                             else if c = CHR ''+'' then (1, cs) else (1, c # cs))
           in if ds \<noteq> [] \<and> list_all is_digit ds then Some (sign * digits_value ds)
              else None))"

text \<open>
  Modelled from the spec: \<open>Cast.toNumber\<close> of \<open>util/cast\<close> (required at line 3) is
  not among the sources. It is the argument validation of the command dispatcher: a
  number argument is passed on, a string argument is read as a number, and what is not
  a number becomes 0.
\<close>

definition Cast_toNumber :: "jsval \<Rightarrow> int" where
  "Cast_toNumber v =
     (case v of
        Num n \<Rightarrow> n
      | Str s \<Rightarrow> (case Number_js s of Some n \<Rightarrow> n | None \<Rightarrow> 0))"

text \<open>
  \<open>String(k)\<close> for a natural number \<open>k\<close>: its decimal digits.
\<close>

definition digit_chars :: string where
  "digit_chars = ''0123456789''"

fun String_js :: "nat \<Rightarrow> string" where
  "String_js k =
     (if k < 10 then [digit_chars ! k] else String_js (k div 10) @ [digit_chars ! (k mod 10)])"

declare String_js.simps [simp del]

text \<open>
  \<open>MOTOR_PORTS\<close> (lines 22-41). The fields \<open>name\<close> and \<open>value\<close> of an entry are
  \<open>port_name\<close> and \<open>port_value\<close> here; the fields \<open>text\<close> and \<open>value\<close> of a menu
  item are \<open>menu_text\<close> and \<open>menu_value\<close>.
\<close>

record port_entry =
  port_name :: string
  port_value :: int

definition MOTOR_PORTS :: "port_entry list" where
  "MOTOR_PORTS =
     [\<lparr>port_name = ''A'', port_value = 1\<rparr>,
      \<lparr>port_name = ''B'', port_value = 2\<rparr>,
      \<lparr>port_name = ''C'', port_value = 4\<rparr>,
      \<lparr>port_name = ''D'', port_value = 8\<rparr>]"

record menu_item =
  menu_text :: string
  menu_value :: string

text \<open>\<open>_buildMenu (info)\<close> (lines 183-190): \<open>info.map\<close> with the element's index.\<close>

definition buildMenu :: "port_entry list \<Rightarrow> menu_item list" where
  "buildMenu info =
     map (\<lambda>(index, entry). \<lparr>menu_text = port_name entry, menu_value = String_js (index + 1)\<rparr>)
       (zip [0 ..< length info] info)"

text \<open>The \<open>args\<close> object of a motor block: its \<open>PORT\<close> and \<open>TIME\<close> fields.\<close>

record block_args =
  PORT :: jsval
  TIME :: jsval

section \<open>The extension's state and its transport\<close>

text \<open>
  The instance fields \<open>connected\<close> and \<open>speed\<close>, and the calls made on the
  Bluetooth transport \<open>this.bt\<close>, oldest first: the filters passed to
  \<open>requestDevice\<close> (major and minor device class), the peripheral ids passed to
  \<open>connectDevice\<close>, and the objects passed to \<open>sendMessage\<close>.
  \<open>connectDevice_pending\<close> counts the promises returned by \<open>connectDevice\<close> that
  are not settled yet. Logging has no effect on this state and is left out.
\<close>

record bt_message =
  message :: string
  encoding :: string

record ev3 =
  connected :: bool
  speed :: int
  requestDevice_calls :: "(nat \<times> nat) list"
  connectDevice_calls :: "string list"
  connectDevice_pending :: nat
  sendMessage_calls :: "bt_message list"

text \<open>
  The constructor (lines 80-120): the state it leaves. Its timer runs \<open>_scan\<close> after
  500 ms (the event \<open>ScanTimer\<close> below).
\<close>

definition new_ev3 :: ev3 where
  "new_ev3 =
     \<lparr>connected = False, speed = 50, requestDevice_calls = [], connectDevice_calls = [],
      connectDevice_pending = 0, sendMessage_calls = []\<rparr>"

text \<open>\<open>_scan ()\<close> (lines 196-208); both callbacks of its promise only log.\<close>

definition scan :: "ev3 \<Rightarrow> ev3" where
  "scan s = s\<lparr>requestDevice_calls := requestDevice_calls s @ [(8, 1)]\<rparr>"

text \<open>
  \<open>_connect (peripheralId)\<close> (lines 215-228): the flag is set, then the transport is
  called. The two callbacks given to \<open>then\<close> are \<open>connect_onFulfilled\<close> (it only
  logs) and \<open>connect_onRejected\<close>.
\<close>

definition connect :: "string \<Rightarrow> ev3 \<Rightarrow> ev3" where
  "connect peripheralId s =
     (let s = s\<lparr>connected := True\<rparr>
      in s\<lparr>connectDevice_calls := connectDevice_calls s @ [peripheralId],
            connectDevice_pending := connectDevice_pending s + 1\<rparr>)"

definition connect_onFulfilled :: "ev3 \<Rightarrow> ev3" where
  "connect_onFulfilled s = s"

definition connect_onRejected :: "ev3 \<Rightarrow> ev3" where
  "connect_onRejected s = s\<lparr>connected := False\<rparr>"

text \<open>
  \<open>this.bt.didReceiveCall (method, params)\<close> (lines 96-114). Of \<open>params\<close> only the
  field \<open>peripheralId\<close> is read. The result is the returned string, \<open>None\<close> where
  the function returns nothing.
\<close>

record call_params =
  peripheralId :: string

definition didReceiveCall :: "string \<Rightarrow> call_params \<Rightarrow> ev3 \<Rightarrow> string option \<times> ev3" where
  "didReceiveCall method params s =
     (if method = ''didDiscoverPeripheral'' then
        (None, if \<not> connected s then connect (peripheralId params) s else s)
      else if method = ''didReceiveMessage'' then (None, s)
      else (Some ''Unknown method'', s))"

section \<open>The blocks\<close>

text \<open>
  What a block returns: nothing, the promise resolved by its own timer (with the delay
  given to \<open>setTimeout\<close>, in milliseconds), or the promise of \<open>sendMessage\<close>.
\<close>

datatype block_result = Undefined | TimerPromise int | SendMessagePromise

text \<open>\<open>motorTurnClockwise (args)\<close> (lines 330-358).\<close>

definition motorTurnClockwise :: "block_args \<Rightarrow> ev3 \<Rightarrow> block_result \<times> ev3" where
  "motorTurnClockwise args s =
     (if \<not> connected s then (Undefined, s)
      else
        (let port = Cast_toNumber (PORT args);
             time = Cast_toNumber (TIME args) * 1000;
             cmd = applyPrefix 0 (motorCommand TIMESPEED port time (speed s) LONGRAMP);
             s = s\<lparr>sendMessage_calls := sendMessage_calls s @
                   [\<lparr>message = arrayBufferToBase64 cmd, encoding = ''base64''\<rparr>]\<rparr>
         in (TimerPromise time, s)))"

text \<open>\<open>motorTurnCounterClockwise (args)\<close> (lines 360-388).\<close>

definition motorTurnCounterClockwise :: "block_args \<Rightarrow> ev3 \<Rightarrow> block_result \<times> ev3" where
  "motorTurnCounterClockwise args s =
     (if \<not> connected s then (Undefined, s)
      else
        (let port = Cast_toNumber (PORT args);
             time = Cast_toNumber (TIME args) * 1000;
             cmd = applyPrefix 0 (motorCommand TIMESPEED port time (speed s * - 1) LONGRAMP);
             s = s\<lparr>sendMessage_calls := sendMessage_calls s @
                   [\<lparr>message = arrayBufferToBase64 cmd, encoding = ''base64''\<rparr>]\<rparr>
         in (TimerPromise time, s)))"

text \<open>\<open>beep ()\<close> (lines 390-396).\<close>

definition beep :: "ev3 \<Rightarrow> block_result \<times> ev3" where
  "beep s =
     (if \<not> connected s then (Undefined, s)
      else
        (SendMessagePromise,
         s\<lparr>sendMessage_calls := sendMessage_calls s @
              [\<lparr>message = ''DwAAAIAAAJQBgQKC6AOC6AM='', encoding = ''base64''\<rparr>]\<rparr>))"

section \<open>Runs of the extension\<close>

text \<open>
  What happens to an instance after its construction: the scan timer fires, the
  transport delivers a call, the promise of a pending \<open>connectDevice\<close> is fulfilled or
  rejected, or a block is run. A promise is settled only while one is pending; settling
  it runs the matching callback of \<open>_connect\<close>.
\<close>

datatype event =
    ScanTimer
  | ReceiveCall string call_params
  | ConnectFulfilled
  | ConnectRejected
  | TurnClockwise block_args
  | TurnCounterClockwise block_args
  | Beep

fun fire :: "event \<Rightarrow> ev3 \<Rightarrow> ev3" where
  "fire ScanTimer s = scan s"
| "fire (ReceiveCall method params) s = snd (didReceiveCall method params s)"
| "fire ConnectFulfilled s =
     (if connectDevice_pending s = 0 then s
      else connect_onFulfilled (s\<lparr>connectDevice_pending := connectDevice_pending s - 1\<rparr>))"
| "fire ConnectRejected s =
     (if connectDevice_pending s = 0 then s
      else connect_onRejected (s\<lparr>connectDevice_pending := connectDevice_pending s - 1\<rparr>))"
| "fire (TurnClockwise args) s = snd (motorTurnClockwise args s)"
| "fire (TurnCounterClockwise args) s = snd (motorTurnCounterClockwise args s)"
| "fire Beep s = snd (beep s)"

fun run_events :: "event list \<Rightarrow> ev3 \<Rightarrow> ev3" where
  "run_events [] s = s"
| "run_events (e # es) s = run_events es (fire e s)"

text \<open>The peripheral ids of the discoveries among a list of events, in order.\<close>

fun discoveries :: "event list \<Rightarrow> string list" where
  "discoveries [] = []"
| "discoveries (ReceiveCall method params # es) =
     (if method = ''didDiscoverPeripheral'' then peripheralId params # discoveries es
      else discoveries es)"
| "discoveries (e # es) = discoveries es"

text \<open>
  The invariant of the connection: at most one \<open>connectDevice\<close> promise is pending,
  the flag is set while one is pending, and the flag is set only after \<open>connectDevice\<close>
  was called.
\<close>

definition link_inv :: "ev3 \<Rightarrow> bool" where
  "link_inv s =
     (connectDevice_pending s \<le> 1 \<and>
      (if connectDevice_pending s = 1 then connected s else True) \<and>
      (if connected s then connectDevice_calls s \<noteq> [] else True))"

section \<open>Bitwise operators on the integer model\<close>

lemma ToInt32_signed: "ToInt32 x = signed_take_bit 31 x"
proof -
  define m where "m = x mod 4294967296"
  have m: "0 \<le> m" "m < 4294967296" by (simp_all add: m_def)
  have "(x + 2147483648) mod 4294967296 = (m + 2147483648) mod 4294967296"
    unfolding m_def by (simp add: mod_add_left_eq)
  also have "\<dots> = (if m \<ge> 2147483648 then m - 2147483648 else m + 2147483648)"
  proof (cases "m \<ge> 2147483648")
    case True
    have e: "m + 2147483648 = m - 2147483648 + 1 * 4294967296"
      by simp
    have "(m + 2147483648) mod 4294967296 = (m - 2147483648) mod 4294967296"
      by (simp only: e mod_mult_self1)
    also have "\<dots> = m - 2147483648" using True m by simp
    finally show ?thesis using True by simp
  next
    case False
    then show ?thesis using m by simp
  qed
  finally show ?thesis
    by (simp add: ToInt32_def signed_take_bit_eq_take_bit_shift take_bit_eq_mod Let_def
        flip: m_def)
qed


lemma js_and_ff: "js_and x 0xff = x mod 256"
proof -
  have "js_and x 0xff = take_bit 8 (signed_take_bit 31 x)"
    by (simp add: js_and_def ToInt32_signed take_bit_eq_mask mask_eq_exp_minus_1)
  also have "\<dots> = take_bit 8 x"
    by (rule bit_eqI) (auto simp: bit_simps)
  finally show ?thesis by (simp add: take_bit_eq_mod)
qed

lemma js_shr_byte:
  assumes "k + 8 \<le> 32"
  shows "js_shr x k mod 256 = (x div 2 ^ k) mod 256"
proof -
  have k: "k mod 32 = k" using assms by simp
  have "js_shr x k mod 256 = take_bit 8 (drop_bit k (signed_take_bit 31 x))"
    by (simp add: js_shr_def k ToInt32_signed take_bit_eq_mod)
  also have "\<dots> = take_bit 8 (drop_bit k x)"
    using assms by (intro bit_eqI) (auto simp: bit_simps)
  finally show ?thesis by (simp add: take_bit_eq_mod drop_bit_eq_div)
qed

lemma js_shr_8: "js_shr x 8 mod 256 = x div 256 mod 256"
  using js_shr_byte [of 8 x] by simp

lemma js_shr_16: "js_shr x 16 mod 256 = x div 65536 mod 256"
  using js_shr_byte [of 16 x] by simp

lemma js_shr_24: "js_shr x 24 mod 256 = x div 16777216 mod 256"
  using js_shr_byte [of 24 x] by simp

lemma le16_roundtrip:
  assumes "0 \<le> run" "run < 65536"
  shows "run mod 256 + 256 * (run div 256 mod 256) = (run::int)"
proof -
  have "run div 256 < 256" using assms by simp
  moreover have "0 \<le> run div 256" using assms by simp
  ultimately have "run div 256 mod 256 = run div 256" by simp
  then show ?thesis by simp
qed

lemma le32_roundtrip:
  assumes "0 \<le> run" "run < 4294967296"
  shows "run mod 256 + 256 * (run div 256 mod 256 + 256 * (run div 65536 mod 256
           + 256 * (run div 16777216 mod 256))) = (run::int)"
proof -
  have a: "run div 65536 = run div 256 div 256"
    using zdiv_zmult2_eq [of 256 run 256] by simp
  have b: "run div 16777216 = run div 256 div 256 div 256"
    using zdiv_zmult2_eq [of 256 run 65536] a by simp
  have "run div 16777216 < 256" "0 \<le> run div 16777216" using assms by simp_all
  then have c: "run div 16777216 mod 256 = run div 16777216" by simp
  show ?thesis unfolding c unfolding a b by simp
qed

lemma getRunValues_bytes:
  "getRunValues run =
     (if run < 0x7fff then [NUM16, run mod 256, run div 256 mod 256]
      else [NUM32, run mod 256, run div 256 mod 256, run div 65536 mod 256,
            run div 16777216 mod 256])"
  unfolding getRunValues_def js_and_ff js_shr_8 js_shr_16 js_shr_24 by (rule refl)

section \<open>The ramp profile\<close>

lemma motorCommand_nonneg:
  assumes "0 \<le> d"
  shows "motorCommand command port d v r =
           (case rampProfile d r of (rampup, run, rampdown) \<Rightarrow>
              [command, LAYER, port, NUM8,
               js_and (if v < 0 \<and> 0 < d then 0x100 + v else \<bar>v\<bar>) 0xff,
               NUM8, rampup] @ getRunValues run @ [NUM8, rampdown, BRAKE])"
  using assms by (auto simp: motorCommand_def Let_def split: prod.splits)

text \<open>
  C1. For every non-negative duration \<open>d\<close>, every speed and every ramp constant \<open>r\<close>,
  the command emitted by the encoder carries the ramp-up value, the encoded steady run
  and the ramp-down value of the derived profile, and that profile satisfies: if
  \<open>2r > d\<close> then ramp-up plus ramp-down is \<open>d\<close> and the steady run is 0; if
  \<open>2r \<le> d\<close> then ramp-up and ramp-down are both \<open>r\<close> and the steady run is
  \<open>d - 2r\<close>; in every case the three add up to \<open>d\<close>.
\<close>

theorem C1_ramp_profile:
  assumes "0 \<le> d"
  shows "\<exists>rampup run rampdown.
           rampProfile d r = (rampup, run, rampdown) \<and>
           take 7 (motorCommand command port d v r) ! 6 = rampup \<and>
           drop 7 (motorCommand command port d v r) =
             getRunValues run @ [NUM8, rampdown, BRAKE] \<and>
           (2 * r > d \<longrightarrow> rampup + rampdown = d \<and> run = 0) \<and>
           (2 * r \<le> d \<longrightarrow> rampup = r \<and> rampdown = r \<and> run = d - 2 * r) \<and>
           rampup + run + rampdown = d"
proof (cases "d - r * 2 < 0")
  case True
  then have p: "rampProfile d r = (d div 2, 0, d - d div 2)"
    by (simp add: rampProfile_def Let_def)
  show ?thesis
    using True by (simp add: motorCommand_nonneg [OF assms] p)
next
  case False
  then have p: "rampProfile d r = (r, d - r * 2, r)"
    by (simp add: rampProfile_def)
  show ?thesis
    using False by (simp add: motorCommand_nonneg [OF assms] p)
qed

theorem C1_ramp_profile_witness:
  "rampProfile 1000 50 = (50, 900, 50) \<and> rampProfile 75 50 = (37, 0, 38)"
proof -
  have a: "(0::int) \<le> 1000" and b: "(0::int) \<le> 75" by simp_all
  from C1_ramp_profile [OF a, of 50 TIMESPEED 1 50]
  have "rampProfile 1000 50 = (50, 900, 50)" by auto
  moreover from C1_ramp_profile [OF b, of 50 TIMESPEED 1 50]
  have "rampProfile 75 50 = (37, 0, 38)" by (auto simp: rampProfile_def)
  ultimately show ?thesis by simp
qed

section \<open>The run-length encoding\<close>

lemma decodeLE_getRunValues:
  assumes "0 \<le> run" "run < 2 ^ 32"
  shows "decodeLE (tl (getRunValues run)) = run"
proof (cases "run < 0x7fff")
  case True
  then have "decodeLE (tl (getRunValues run)) = run mod 256 + 256 * (run div 256 mod 256)"
    by (simp add: getRunValues_bytes decodeLE_def)
  also have "\<dots> = run"
    using assms(1) True by (intro le16_roundtrip) simp_all
  finally show ?thesis .
next
  case False
  then have "decodeLE (tl (getRunValues run)) =
      run mod 256 + 256 * (run div 256 mod 256 + 256 * (run div 65536 mod 256
           + 256 * (run div 16777216 mod 256)))"
    by (simp add: getRunValues_bytes decodeLE_def)
  also have "\<dots> = run"
    using assms by (intro le32_roundtrip) simp_all
  finally show ?thesis .
qed

lemma rampProfile_run_nonneg: "0 \<le> fst (snd (rampProfile n ramp))"
  by (simp add: rampProfile_def Let_def)

text \<open>
  C2 (as amended). A run below \<open>0x7FFF\<close> is encoded in exactly 3 bytes, the marker
  \<open>0x82\<close> first; a run of \<open>0x7FFF\<close> or more in exactly 5 bytes, the marker \<open>0x83\<close>
  first; every payload byte is in the range of a byte; and for every run from 0 up to,
  but not including, \<open>2^32\<close> the payload decoded little-endian is the run.
\<close>

theorem C2_run_values:
  "(run < 0x7fff \<longrightarrow> length (getRunValues run) = 3 \<and> hd (getRunValues run) = 0x82) \<and>
   (0x7fff \<le> run \<longrightarrow> length (getRunValues run) = 5 \<and> hd (getRunValues run) = 0x83) \<and>
   (\<forall>b \<in> set (tl (getRunValues run)). 0 \<le> b \<and> b < 256) \<and>
   (0 \<le> run \<and> run < 2 ^ 32 \<longrightarrow> decodeLE (tl (getRunValues run)) = run)"
proof (intro conjI impI)
  assume "0 \<le> run \<and> run < 2 ^ 32"
  then show "decodeLE (tl (getRunValues run)) = run"
    by (simp add: decodeLE_getRunValues)
qed (simp_all add: getRunValues_bytes NUM16_def NUM32_def)

theorem C2_run_values_witness:
  "getRunValues 900 = [0x82, 0x84, 0x03] \<and> decodeLE [0x84, 0x03] = 900 \<and>
   getRunValues 100000 = [0x83, 0xA0, 0x86, 0x01, 0x00] \<and>
   decodeLE [0xA0, 0x86, 0x01, 0x00] = 100000"
  using C2_run_values [of 900] C2_run_values [of 100000]
  by (simp add: getRunValues_bytes NUM16_def NUM32_def)

text \<open>
  The claim as stated fails from \<open>2^32\<close> on: the four payload bytes of the run
  \<open>2^32\<close> are all 0.
\<close>

theorem C2_roundtrip_counterexample:
  "(0x7fff::int) \<le> 4294967296 \<and> getRunValues 4294967296 = [0x83, 0, 0, 0, 0] \<and>
   decodeLE (tl (getRunValues 4294967296)) \<noteq> 4294967296"
  by (simp add: getRunValues_bytes decodeLE_def NUM32_def)

section \<open>Direction normalisation\<close>

lemma motorCommand_dir:
  "motorCommand c p d v r ! 4 =
     (if (v < 0 \<and> 0 < d) \<or> (0 \<le> v \<and> d < 0) then (256 - \<bar>v\<bar>) mod 256 else \<bar>v\<bar> mod 256)"
  by (auto simp: motorCommand_def Let_def js_and_ff split: prod.splits)

lemma motorCommand_neg_speed:
  "motorCommand c p d (- v) r = motorCommand c p (- d) v r"
proof -
  consider "v < 0" | "v = 0" | "0 < v" by linarith
  then show ?thesis
  proof cases
    case 1 then show ?thesis by (simp add: motorCommand_def)
  next
    case 2 then show ?thesis by (simp add: motorCommand_def js_and_ff)
  next
    case 3 then show ?thesis by (simp add: motorCommand_def)
  qed
qed

text \<open>
  C3. For every speed \<open>v\<close> and duration \<open>d\<close>, the encoder gives the same byte
  sequence for (\<open>-v\<close>, \<open>d\<close>) as for (\<open>v\<close>, \<open>-d\<close>), and the same for
  (\<open>-v\<close>, \<open>-d\<close>) as for (\<open>v\<close>, \<open>d\<close>). The direction byte, at position 4 of
  the sequence, is the byte value of 256 minus the magnitude of the speed when the net
  direction is negative (exactly one of speed and duration is negative), and the byte
  value of the magnitude otherwise; for a magnitude from 1 to 255 these are
  \<open>256 - \<bar>v\<bar>\<close> and \<open>\<bar>v\<bar>\<close> themselves.
\<close>

theorem C3_direction:
  "motorCommand c p d (- v) r = motorCommand c p (- d) v r \<and>
   motorCommand c p (- d) (- v) r = motorCommand c p d v r \<and>
   motorCommand c p d v r ! 4 =
     (if (v < 0 \<and> 0 < d) \<or> (0 \<le> v \<and> d < 0)
      then (256 - \<bar>v\<bar>) mod 256 else \<bar>v\<bar> mod 256) \<and>
   (0 < \<bar>v\<bar> \<and> \<bar>v\<bar> < 256 \<longrightarrow>
      motorCommand c p d v r ! 4 =
        (if (v < 0 \<and> 0 < d) \<or> (0 \<le> v \<and> d < 0) then 256 - \<bar>v\<bar> else \<bar>v\<bar>))"
proof (intro conjI impI)
  show "motorCommand c p d (- v) r = motorCommand c p (- d) v r"
    by (rule motorCommand_neg_speed)
  show "motorCommand c p (- d) (- v) r = motorCommand c p d v r"
    using motorCommand_neg_speed [of c p "- d" v r] by simp
  show "motorCommand c p d v r ! 4 =
     (if (v < 0 \<and> 0 < d) \<or> (0 \<le> v \<and> d < 0)
      then (256 - \<bar>v\<bar>) mod 256 else \<bar>v\<bar> mod 256)"
    by (rule motorCommand_dir)
  assume a: "0 < \<bar>v\<bar> \<and> \<bar>v\<bar> < 256"
  have neg: "(256 - \<bar>v\<bar>) mod 256 = 256 - \<bar>v\<bar>"
    using a by (intro mod_pos_pos_trivial) linarith+
  have pos: "\<bar>v\<bar> mod 256 = \<bar>v\<bar>"
    using a by (intro mod_pos_pos_trivial) linarith+
  show "motorCommand c p d v r ! 4 =
        (if (v < 0 \<and> 0 < d) \<or> (0 \<le> v \<and> d < 0) then 256 - \<bar>v\<bar> else \<bar>v\<bar>)"
    by (simp only: motorCommand_dir neg pos)
qed

theorem C3_direction_witness:
  "motorCommand TIMESPEED 1 100 (- 40) 50 = motorCommand TIMESPEED 1 (- 100) 40 50 \<and>
   motorCommand TIMESPEED 1 (- 100) (- 40) 50 = motorCommand TIMESPEED 1 100 40 50 \<and>
   motorCommand TIMESPEED 1 100 (- 40) 50 ! 4 = 216 \<and>
   motorCommand TIMESPEED 1 100 40 50 ! 4 = 40"
  using C3_direction [of TIMESPEED 1 100 40 50] C3_direction [of TIMESPEED 1 100 "- 40" 50]
  by simp

section \<open>The frame\<close>

lemma applyPrefix_bytes:
  "applyPrefix n cmd =
     [(int (length cmd) + 5) mod 256, (int (length cmd) + 5) div 256 mod 256, 1, 0, 0, n, 0] @ cmd"
  unfolding applyPrefix_def Let_def js_and_ff js_shr_8 by simp

text \<open>
  C6 (as amended). For every addressing byte \<open>n\<close> and every instruction \<open>cmd\<close>, the
  frame is seven bytes followed by the unmodified instruction: the low byte and the high
  byte of the instruction's length plus 5, then \<open>0x01\<close>, \<open>0x00\<close>, \<open>0x00\<close>, \<open>n\<close>,
  \<open>0x00\<close>. Whenever the length plus 5 is below \<open>65536\<close>, the two-byte little-endian
  length field equals the instruction's length plus 5.
\<close>

theorem C6_frame:
  "take 7 (applyPrefix n cmd) =
     [(int (length cmd) + 5) mod 256, (int (length cmd) + 5) div 256 mod 256, 1, 0, 0, n, 0] \<and>
   drop 7 (applyPrefix n cmd) = cmd \<and>
   length (applyPrefix n cmd) = length cmd + 7 \<and>
   (length cmd + 5 < 65536 \<longrightarrow> decodeLE (take 2 (applyPrefix n cmd)) = int (length cmd) + 5)"
proof (intro conjI impI)
  assume a: "length cmd + 5 < 65536"
  have "decodeLE (take 2 (applyPrefix n cmd)) =
          (int (length cmd) + 5) mod 256 + 256 * ((int (length cmd) + 5) div 256 mod 256)"
    by (simp add: applyPrefix_bytes decodeLE_def)
  also have "\<dots> = int (length cmd) + 5"
    using a by (intro le16_roundtrip) simp_all
  finally show "decodeLE (take 2 (applyPrefix n cmd)) = int (length cmd) + 5" .
qed (simp_all add: applyPrefix_bytes)

theorem C6_frame_witness:
  "applyPrefix 0 [0xAF, 0, 1] = [8, 0, 1, 0, 0, 0, 0, 0xAF, 0, 1] \<and>
   decodeLE (take 2 (applyPrefix 0 [0xAF, 0, 1])) = 8"
  using C6_frame [of 0 "[0xAF, 0, 1]"] by (simp add: applyPrefix_bytes)

text \<open>
  The claim as stated fails for an instruction of 65531 elements: its length plus 5 is
  \<open>65536\<close>, and both bytes of the length field are 0.
\<close>

theorem C6_length_counterexample:
  "take 2 (applyPrefix 0 (replicate 65531 0)) = [0, 0] \<and>
   decodeLE (take 2 (applyPrefix 0 (replicate 65531 0))) \<noteq> int (length (replicate 65531 (0::int))) + 5"
  by (simp add: applyPrefix_bytes decodeLE_def)

section \<open>Sends while not connected\<close>

text \<open>
  C7 (as amended). Whenever the \<open>connected\<close> flag is not set (no connect attempt was
  issued yet, or the last one failed), each of the three blocks returns at once with
  nothing, leaves the state as it is, and makes no \<open>sendMessage\<close> call. The flag is
  the only gate: in every state a block makes exactly one \<open>sendMessage\<close> call when the
  flag is set and none when it is not.
\<close>

theorem C7_flag_gates_sends:
  "(\<not> connected s \<longrightarrow>
      motorTurnClockwise args s = (Undefined, s) \<and>
      motorTurnCounterClockwise args s = (Undefined, s) \<and>
      beep s = (Undefined, s) \<and>
      sendMessage_calls (fire (TurnClockwise args) s) = sendMessage_calls s \<and>
      sendMessage_calls (fire (TurnCounterClockwise args) s) = sendMessage_calls s \<and>
      sendMessage_calls (fire Beep s) = sendMessage_calls s) \<and>
   length (sendMessage_calls (fire (TurnClockwise args) s)) =
     length (sendMessage_calls s) + (if connected s then 1 else 0) \<and>
   length (sendMessage_calls (fire (TurnCounterClockwise args) s)) =
     length (sendMessage_calls s) + (if connected s then 1 else 0) \<and>
   length (sendMessage_calls (fire Beep s)) =
     length (sendMessage_calls s) + (if connected s then 1 else 0)"
  by (simp add: motorTurnClockwise_def motorTurnCounterClockwise_def beep_def Let_def)

theorem C7_flag_gates_sends_witness:
  "\<not> connected (scan new_ev3) \<and>
   motorTurnClockwise \<lparr>PORT = Str ''1'', TIME = Num 1\<rparr> (scan new_ev3) = (Undefined, scan new_ev3) \<and>
   beep (scan new_ev3) = (Undefined, scan new_ev3) \<and>
   length (sendMessage_calls (fire Beep (scan new_ev3))) = 0"
proof -
  have a: "\<not> connected (scan new_ev3)" by (simp add: scan_def new_ev3_def)
  show ?thesis
    using a C7_flag_gates_sends [of "scan new_ev3" "\<lparr>PORT = Str ''1'', TIME = Num 1\<rparr>"]
    by (simp add: scan_def new_ev3_def)
qed

text \<open>
  The claim as stated fails while a connect attempt is pending: the flag is set by
  \<open>_connect\<close> before the transport answers, and each block issued then makes one
  \<open>sendMessage\<close> call.
\<close>

theorem C7_pending_counterexample:
  "connectDevice_pending (run_events [ScanTimer,
       ReceiveCall ''didDiscoverPeripheral'' \<lparr>peripheralId = ''EV3''\<rparr>] new_ev3) = 1 \<and>
   length (sendMessage_calls (run_events [ScanTimer,
       ReceiveCall ''didDiscoverPeripheral'' \<lparr>peripheralId = ''EV3''\<rparr>, Beep] new_ev3)) = 1 \<and>
   length (sendMessage_calls (run_events [ScanTimer,
       ReceiveCall ''didDiscoverPeripheral'' \<lparr>peripheralId = ''EV3''\<rparr>,
       TurnClockwise \<lparr>PORT = Str ''1'', TIME = Num 1\<rparr>] new_ev3)) = 1 \<and>
   length (sendMessage_calls (run_events [ScanTimer,
       ReceiveCall ''didDiscoverPeripheral'' \<lparr>peripheralId = ''EV3''\<rparr>,
       TurnCounterClockwise \<lparr>PORT = Str ''1'', TIME = Num 1\<rparr>] new_ev3)) = 1"
  by (simp add: new_ev3_def scan_def didReceiveCall_def connect_def beep_def
      motorTurnClockwise_def motorTurnCounterClockwise_def Let_def)

section \<open>The connection flag\<close>

lemma link_inv_fire: "link_inv s \<Longrightarrow> link_inv (fire e s)"
  by (cases e)
     (auto simp: link_inv_def didReceiveCall_def connect_def connect_onFulfilled_def
        connect_onRejected_def scan_def motorTurnClockwise_def motorTurnCounterClockwise_def
        beep_def Let_def split: if_splits)

lemma link_inv_run: "link_inv s \<Longrightarrow> link_inv (run_events es s)"
  by (induction es arbitrary: s) (simp_all add: link_inv_fire)

lemma link_inv_new: "link_inv new_ev3"
  by (simp add: link_inv_def new_ev3_def)

text \<open>
  C8 (as amended). \<open>_connect\<close> sets the \<open>connected\<close> flag when the connect attempt
  is issued, before its result is known; the acknowledgment leaves the flag as it is and
  a connect failure resets it. In every state the extension reaches, at most one connect
  is pending, the flag is set while it is pending, and the flag is set only after a
  connect attempt was issued.
\<close>

theorem C8_connected_flag:
  "connected (connect p s) \<and>
   connectDevice_pending (connect p s) = connectDevice_pending s + 1 \<and>
   connected (connect_onFulfilled s) = connected s \<and>
   \<not> connected (connect_onRejected s) \<and>
   connectDevice_pending (run_events es new_ev3) \<le> 1 \<and>
   (connectDevice_pending (run_events es new_ev3) = 1 \<longrightarrow> connected (run_events es new_ev3)) \<and>
   (connected (run_events es new_ev3) \<longrightarrow> connectDevice_calls (run_events es new_ev3) \<noteq> [])"
  using link_inv_run [OF link_inv_new, of es]
  by (auto simp: link_inv_def connect_def connect_onFulfilled_def connect_onRejected_def
      split: if_splits)

theorem C8_connected_flag_witness:
  "connected (run_events [ScanTimer, ReceiveCall ''didDiscoverPeripheral'' \<lparr>peripheralId = ''EV3''\<rparr>,
       ConnectFulfilled] new_ev3) \<and>
   connectDevice_pending (run_events [ScanTimer,
       ReceiveCall ''didDiscoverPeripheral'' \<lparr>peripheralId = ''EV3''\<rparr>, ConnectFulfilled] new_ev3) = 0 \<and>
   \<not> connected (run_events [ScanTimer, ReceiveCall ''didDiscoverPeripheral'' \<lparr>peripheralId = ''EV3''\<rparr>,
       ConnectRejected] new_ev3) \<and>
   connectDevice_calls (run_events [ScanTimer,
       ReceiveCall ''didDiscoverPeripheral'' \<lparr>peripheralId = ''EV3''\<rparr>, ConnectFulfilled] new_ev3) \<noteq> []"
  using C8_connected_flag [of "''EV3''" new_ev3
      "[ScanTimer, ReceiveCall ''didDiscoverPeripheral'' \<lparr>peripheralId = ''EV3''\<rparr>, ConnectFulfilled]"]
  by (simp add: new_ev3_def scan_def didReceiveCall_def connect_def connect_onFulfilled_def
      connect_onRejected_def)

text \<open>
  The claim as stated fails after the first discovery: the flag is set while the result
  of the connect attempt is still pending.
\<close>

theorem C8_pending_counterexample:
  "connected (run_events [ScanTimer, ReceiveCall ''didDiscoverPeripheral'' \<lparr>peripheralId = ''EV3''\<rparr>]
       new_ev3) \<and>
   connectDevice_pending (run_events [ScanTimer,
       ReceiveCall ''didDiscoverPeripheral'' \<lparr>peripheralId = ''EV3''\<rparr>] new_ev3) = 1"
  by (simp add: new_ev3_def scan_def didReceiveCall_def connect_def)

section \<open>Discoveries\<close>

lemma discovery_connected:
  "connected s \<Longrightarrow> didReceiveCall ''didDiscoverPeripheral'' params s = (None, s)"
  by (simp add: didReceiveCall_def)

lemma connected_fire:
  "e \<noteq> ConnectRejected \<Longrightarrow> connected s \<Longrightarrow>
     connected (fire e s) \<and> connectDevice_calls (fire e s) = connectDevice_calls s"
  by (cases e)
     (simp_all add: didReceiveCall_def connect_onFulfilled_def scan_def
        motorTurnClockwise_def motorTurnCounterClockwise_def beep_def Let_def)

lemma connected_run:
  "ConnectRejected \<notin> set es \<Longrightarrow> connected s \<Longrightarrow>
     connectDevice_calls (run_events es s) = connectDevice_calls s"
proof (induction es arbitrary: s)
  case Nil
  then show ?case by simp
next
  case (Cons e es)
  then have "e \<noteq> ConnectRejected" "ConnectRejected \<notin> set es" by auto
  with Cons.prems(2) Cons.IH [of "fire e s"] connected_fire [of e s]
  show ?case by simp
qed

lemma not_connected_fire:
  "e \<noteq> ConnectRejected \<Longrightarrow> \<not> connected s \<Longrightarrow>
     (if discoveries [e] = [] then
        \<not> connected (fire e s) \<and> connectDevice_calls (fire e s) = connectDevice_calls s
      else connected (fire e s) \<and>
        connectDevice_calls (fire e s) = connectDevice_calls s @ discoveries [e])"
  by (cases e)
     (simp_all add: didReceiveCall_def connect_def connect_onFulfilled_def scan_def
        motorTurnClockwise_def motorTurnCounterClockwise_def beep_def Let_def)

lemma discoveries_Cons: "discoveries (e # es) = discoveries [e] @ discoveries es"
  by (cases e) simp_all

lemma not_connected_run:
  "ConnectRejected \<notin> set es \<Longrightarrow> \<not> connected s \<Longrightarrow>
     connectDevice_calls (run_events es s) = connectDevice_calls s @ take 1 (discoveries es)"
proof (induction es arbitrary: s)
  case Nil
  then show ?case by simp
next
  case (Cons e es)
  then have e: "e \<noteq> ConnectRejected" and es: "ConnectRejected \<notin> set es" by auto
  show ?case
  proof (cases "discoveries [e] = []")
    case True
    with not_connected_fire [OF e Cons.prems(2)]
    have "\<not> connected (fire e s)" "connectDevice_calls (fire e s) = connectDevice_calls s"
      by simp_all
    with Cons.IH [OF es, of "fire e s"] True show ?thesis
      by (simp add: discoveries_Cons [of e es])
  next
    case False
    with not_connected_fire [OF e Cons.prems(2)]
    have c: "connected (fire e s)"
      and d: "connectDevice_calls (fire e s) = connectDevice_calls s @ discoveries [e]"
      by simp_all
    from False have "take 1 (discoveries (e # es)) = discoveries [e]"
      by (cases e) (simp_all split: if_splits)
    with connected_run [OF es c] d show ?thesis by simp
  qed
qed

text \<open>
  C9. A discovery delivered while the \<open>connected\<close> flag is set (a connect attempt is
  pending or was acknowledged) is ignored: the state is unchanged and no connect call is
  issued. And for every sequence of events without a connect failure, started from the
  constructed instance, the connect calls issued are exactly one call for the first
  discovery, if there is any discovery.
\<close>

theorem C9_first_discovery_only:
  "(connected s \<longrightarrow> didReceiveCall ''didDiscoverPeripheral'' params s = (None, s)) \<and>
   (ConnectRejected \<notin> set es \<longrightarrow>
      connectDevice_calls (run_events es new_ev3) = take 1 (discoveries es))"
  using not_connected_run [of es new_ev3]
  by (simp add: discovery_connected new_ev3_def)

theorem C9_first_discovery_only_witness:
  "connectDevice_calls (run_events [ScanTimer,
       ReceiveCall ''didDiscoverPeripheral'' \<lparr>peripheralId = ''first''\<rparr>,
       ReceiveCall ''didDiscoverPeripheral'' \<lparr>peripheralId = ''second''\<rparr>,
       ConnectFulfilled,
       ReceiveCall ''didDiscoverPeripheral'' \<lparr>peripheralId = ''third''\<rparr>] new_ev3) = [''first''] \<and>
   didReceiveCall ''didDiscoverPeripheral'' \<lparr>peripheralId = ''second''\<rparr>
       (connect ''first'' new_ev3) = (None, connect ''first'' new_ev3)"
proof -
  have c: "connected (connect ''first'' new_ev3)" by (simp add: connect_def)
  show ?thesis
    using c C9_first_discovery_only [of "connect ''first'' new_ev3"
        "\<lparr>peripheralId = ''second''\<rparr>"
        "[ScanTimer,
          ReceiveCall ''didDiscoverPeripheral'' \<lparr>peripheralId = ''first''\<rparr>,
          ReceiveCall ''didDiscoverPeripheral'' \<lparr>peripheralId = ''second''\<rparr>,
          ConnectFulfilled,
          ReceiveCall ''didDiscoverPeripheral'' \<lparr>peripheralId = ''third''\<rparr>]"]
    by simp
qed

text \<open>
  C10. After a connect attempt failed the flag is not set, and a discovery delivered
  then issues a new connect call to the discovered peer. The flag is the only guard: a
  discovery issues a connect call exactly when the flag is not set. No event withdraws a
  scan request.
\<close>

theorem C10_retry_after_failure:
  "\<not> connected (connect_onRejected s) \<and>
   didReceiveCall ''didDiscoverPeripheral'' params (connect_onRejected s) =
     (None, connect (peripheralId params) (connect_onRejected s)) \<and>
   connectDevice_calls (fire (ReceiveCall ''didDiscoverPeripheral'' params) (connect_onRejected s)) =
     connectDevice_calls s @ [peripheralId params] \<and>
   connectDevice_calls (fire (ReceiveCall ''didDiscoverPeripheral'' params) s) =
     (if connected s then connectDevice_calls s else connectDevice_calls s @ [peripheralId params]) \<and>
   requestDevice_calls (fire e s) =
     (if e = ScanTimer then requestDevice_calls s @ [(8, 1)] else requestDevice_calls s)"
proof (intro conjI)
  show "requestDevice_calls (fire e s) =
     (if e = ScanTimer then requestDevice_calls s @ [(8, 1)] else requestDevice_calls s)"
    by (cases e)
       (simp_all add: didReceiveCall_def connect_def connect_onFulfilled_def
          connect_onRejected_def scan_def motorTurnClockwise_def motorTurnCounterClockwise_def
          beep_def Let_def)
qed (simp_all add: didReceiveCall_def connect_def connect_onRejected_def)

theorem C10_retry_after_failure_witness:
  "connectDevice_calls (run_events [ScanTimer,
       ReceiveCall ''didDiscoverPeripheral'' \<lparr>peripheralId = ''first''\<rparr>,
       ConnectRejected,
       ReceiveCall ''didDiscoverPeripheral'' \<lparr>peripheralId = ''second''\<rparr>] new_ev3)
     = [''first'', ''second'']"
  using C10_retry_after_failure [of
      "(connect ''first'' (scan new_ev3))\<lparr>connectDevice_pending := 0\<rparr>"
      "\<lparr>peripheralId = ''second''\<rparr>" ScanTimer]
  by (simp add: new_ev3_def scan_def didReceiveCall_def connect_def connect_onRejected_def)

section \<open>The clockwise block, end to end\<close>

lemma fromCharCodes_drop:
  "len = length bytes \<Longrightarrow>
     fromCharCodes bytes i len binary = binary @ map char_of (drop i bytes)"
proof (induction bytes i len binary rule: fromCharCodes.induct)
  case (1 bytes i len binary)
  show ?case
  proof (cases "i < len")
    case True
    then have "drop i bytes = bytes ! i # drop (Suc i) bytes"
      using 1(2) by (simp add: Cons_nth_drop_Suc)
    with True 1 show ?thesis by (simp add: fromCharCodes.simps [of bytes i])
  next
    case False
    with 1(2) show ?thesis by (simp add: fromCharCodes.simps [of bytes i])
  qed
qed

lemma arrayBufferToBase64_map:
  "arrayBufferToBase64 buffer = btoa (map (\<lambda>x. char_of (ToUint8 x)) buffer)"
  by (simp add: arrayBufferToBase64_def fromCharCodes_drop comp_def)

lemma turn_instruction:
  "motorCommand TIMESPEED 1 1000 50 LONGRAMP =
     [0xAF, 0, 1, 0x81, 50, 0x81, 50, 0x82, 0x84, 0x03, 0x81, 50, 1]"
  by (simp add: motorCommand_def rampProfile_def getRunValues_bytes js_and_ff PRIMITIVE_defs)

lemma turn_frame:
  "applyPrefix 0 (motorCommand TIMESPEED 1 1000 50 LONGRAMP) =
     [18, 0, 1, 0, 0, 0, 0, 0xAF, 0, 1, 0x81, 50, 0x81, 50, 0x82, 0x84, 0x03, 0x81, 50, 1]"
  by (simp add: turn_instruction applyPrefix_bytes)

lemma turn_message:
  "arrayBufferToBase64
     [18, 0, 1, 0, 0, 0, 0, 0xAF, 0, 1, 0x81, 50, 0x81, 50, 0x82, 0x84, 0x03, 0x81, 50, 1] =
   ''EgABAAAAAK8AAYEygTKChAOBMgE=''"
  by (simp add: arrayBufferToBase64_map ToUint8_def b64_def base64_alphabet_def)

text \<open>
  C5 (as amended). With the flag set and the default speed 50, the clockwise block on
  port 1 (port A) for 1 second builds the instruction
  \<open>[0xAF, 0, 1, 0x81, 50, 0x81, 50, 0x82, 0x84, 0x03, 0x81, 50, 1]\<close>, whose run bytes
  are the low and the high byte of 900 (the 1000 ms less the two ramps of 50 ms); the
  frame's length field is \<open>13 + 5 = 18\<close>; the frame is sent base64-encoded in exactly
  one \<open>sendMessage\<close> call; and the block returns the promise resolved by a timer of
  1000 ms.
\<close>

theorem C5_turnClockwise_end_to_end:
  assumes "connected s" and "speed s = 50"
    and "Cast_toNumber (PORT args) = 1" and "Cast_toNumber (TIME args) = 1"
  shows "motorCommand TIMESPEED 1 1000 50 LONGRAMP =
           [0xAF, 0, 1, 0x81, 50, 0x81, 50, 0x82, 0x84, 0x03, 0x81, 50, 1] \<and>
         decodeLE (take 2 (applyPrefix 0 (motorCommand TIMESPEED 1 1000 50 LONGRAMP))) = 13 + 5 \<and>
         motorTurnClockwise args s =
           (TimerPromise 1000,
            s\<lparr>sendMessage_calls := sendMessage_calls s @
                 [\<lparr>message = ''EgABAAAAAK8AAYEygTKChAOBMgE='', encoding = ''base64''\<rparr>]\<rparr>) \<and>
         length (sendMessage_calls (fire (TurnClockwise args) s)) =
           length (sendMessage_calls s) + 1"
proof (intro conjI)
  show "motorCommand TIMESPEED 1 1000 50 LONGRAMP =
           [0xAF, 0, 1, 0x81, 50, 0x81, 50, 0x82, 0x84, 0x03, 0x81, 50, 1]"
    by (rule turn_instruction)
  show "decodeLE (take 2 (applyPrefix 0 (motorCommand TIMESPEED 1 1000 50 LONGRAMP))) = 13 + 5"
    by (simp add: turn_frame decodeLE_def)
  show m: "motorTurnClockwise args s =
           (TimerPromise 1000,
            s\<lparr>sendMessage_calls := sendMessage_calls s @
                 [\<lparr>message = ''EgABAAAAAK8AAYEygTKChAOBMgE='', encoding = ''base64''\<rparr>]\<rparr>)"
    using assms by (simp add: motorTurnClockwise_def turn_frame turn_message)
  show "length (sendMessage_calls (fire (TurnClockwise args) s)) =
           length (sendMessage_calls s) + 1"
    by (simp add: m)
qed

theorem C5_turnClockwise_end_to_end_witness:
  "sendMessage_calls (run_events [ScanTimer,
       ReceiveCall ''didDiscoverPeripheral'' \<lparr>peripheralId = ''EV3''\<rparr>, ConnectFulfilled,
       TurnClockwise \<lparr>PORT = Str ''1'', TIME = Num 1\<rparr>] new_ev3) =
     [\<lparr>message = ''EgABAAAAAK8AAYEygTKChAOBMgE='', encoding = ''base64''\<rparr>] \<and>
   fst (motorTurnClockwise \<lparr>PORT = Str ''1'', TIME = Num 1\<rparr>
         (run_events [ScanTimer,
            ReceiveCall ''didDiscoverPeripheral'' \<lparr>peripheralId = ''EV3''\<rparr>, ConnectFulfilled]
            new_ev3)) = TimerPromise 1000"
proof -
  define s where "s = run_events [ScanTimer,
       ReceiveCall ''didDiscoverPeripheral'' \<lparr>peripheralId = ''EV3''\<rparr>, ConnectFulfilled] new_ev3"
  have s: "s = \<lparr>connected = True, speed = 50, requestDevice_calls = [(8, 1)],
        connectDevice_calls = [''EV3''], connectDevice_pending = 0, sendMessage_calls = []\<rparr>"
    by (simp add: s_def new_ev3_def scan_def didReceiveCall_def connect_def
        connect_onFulfilled_def)
  have a: "connected s" and b: "speed s = 50" by (simp_all add: s)
  have p: "Cast_toNumber (PORT \<lparr>PORT = Str ''1'', TIME = Num 1\<rparr>) = 1"
    by (simp add: Cast_toNumber_def Number_js_def is_digit_def digits_value_def)
  have t: "Cast_toNumber (TIME \<lparr>PORT = Str ''1'', TIME = Num 1\<rparr>) = 1"
    by (simp add: Cast_toNumber_def)
  from C5_turnClockwise_end_to_end [OF a b p t]
  have "motorTurnClockwise \<lparr>PORT = Str ''1'', TIME = Num 1\<rparr> s =
           (TimerPromise 1000,
            s\<lparr>sendMessage_calls := sendMessage_calls s @
                 [\<lparr>message = ''EgABAAAAAK8AAYEygTKChAOBMgE='', encoding = ''base64''\<rparr>]\<rparr>)"
    by simp
  then have "sendMessage_calls (fire (TurnClockwise \<lparr>PORT = Str ''1'', TIME = Num 1\<rparr>) s) =
       [\<lparr>message = ''EgABAAAAAK8AAYEygTKChAOBMgE='', encoding = ''base64''\<rparr>] \<and>
     fst (motorTurnClockwise \<lparr>PORT = Str ''1'', TIME = Num 1\<rparr> s) = TimerPromise 1000"
    by (simp add: s)
  then show ?thesis by (simp add: s_def)
qed

text \<open>
  The claim as stated gives the run bytes as those of 0; the instruction built is
  different.
\<close>

theorem C5_run_bytes_counterexample:
  "motorCommand TIMESPEED 1 1000 50 LONGRAMP \<noteq>
     [0xAF, 0, 1, 0x81, 50, 0x81, 50, 0x82, 0, 0, 0x81, 50, 1]"
  by (simp add: turn_instruction)

section \<open>The port byte\<close>

lemma motorCommand_port: "motorCommand c p n v r ! 2 = p"
  by (simp add: motorCommand_def Let_def split: prod.splits)

text \<open>
  C4. The port byte, at position 2 of the instruction, is the number the block received
  as \<open>PORT\<close>. The values the menu built by \<open>_buildMenu\<close> offers for the ports A, B,
  C and D are the strings of 1, 2, 3 and 4, while \<open>MOTOR_PORTS\<close> gives them the values
  1, 2, 4 and 8: the commands for the menu's four items carry the port bytes 1, 2, 3
  and 4.
\<close>

theorem C4_menu_port_values:
  "map menu_text (buildMenu MOTOR_PORTS) = [''A'', ''B'', ''C'', ''D''] \<and>
   map menu_value (buildMenu MOTOR_PORTS) = [''1'', ''2'', ''3'', ''4''] \<and>
   map port_value MOTOR_PORTS = [1, 2, 4, 8] \<and>
   map (\<lambda>item. motorCommand TIMESPEED (Cast_toNumber (Str (menu_value item))) 1000 50 LONGRAMP ! 2)
     (buildMenu MOTOR_PORTS) = [1, 2, 3, 4]"
  by (simp add: motorCommand_port buildMenu_def MOTOR_PORTS_def String_js.simps digit_chars_def
      upt_rec [of 0] upt_rec [of 1] upt_rec [of 2] upt_rec [of 3] upt_rec [of 4]
      Cast_toNumber_def Number_js_def is_digit_def digits_value_def)

end
